theory Spec2Isabelle
  imports Main "HOL-Library.AList"
begin

section \<open>The zm-device actor (src/zm_device.c)\<close>

text \<open>
  The actor of \<^verbatim>\<open>zm_device.c\<close> is embedded function by function. The actor's own
  structure \<^verbatim>\<open>struct _zm_device_t\<close> is a record; everything the actor does to the outside
  (broker sends, registry persistence, logging) is appended, in call order, to the trace of
  a \<open>world\<close> that every handler takes and returns. A handler that cannot return because
  an assertion fails yields \<open>Inl\<close> with the reason and the world at that moment.

  The classes the actor only calls (zm_proto, zm_devices, mlm_client, zconfig, zpoller,
  zmsg) are not part of \<^verbatim>\<open>zm_device.c\<close>; each is modelled below by the interface the
  specification gives it. All of them are classes in the CZMQ style, whose methods start
  with \<^verbatim>\<open>assert (self)\<close>: a method called on a NULL object does not return. Pointers that
  may be NULL are \<open>option\<close> values, and each such call is the branch
  \<open>Inl (Null_object f, w)\<close> at the place where the actor calls \<open>f\<close>.
\<close>

subsection \<open>Protocol messages (zm_proto)\<close>

text \<open>
  Modelled from the spec: the Protocol Codec (class zm_proto) is missing from the sources.
  A message is a device record (name, timestamp, size/ttl value, annotation block of
  key/string pairs), an OK status, or an error status with a numeric code and a text. One
  decode buffer holds all fields; \<open>zm_proto_id\<close> says which kind the buffer currently is.
\<close>

datatype zm_proto_kind = ZM_PROTO_DEVICE | ZM_PROTO_OK | ZM_PROTO_ERROR | ZM_PROTO_OTHER nat

record zm_proto_t =
  zm_proto_id :: zm_proto_kind
  zm_proto_device :: string
  zm_proto_time :: nat
  zm_proto_ttl :: nat
  zm_proto_ext :: "(string \<times> string) list"
  zm_proto_code :: nat
  zm_proto_description :: string

text \<open>Modelled from the spec: a fresh, empty message buffer (\<^verbatim>\<open>zm_proto_new\<close>).\<close>

definition zm_proto_new :: zm_proto_t where
  "zm_proto_new =
     \<lparr>zm_proto_id = ZM_PROTO_OTHER 0, zm_proto_device = [], zm_proto_time = 0,
      zm_proto_ttl = 0, zm_proto_ext = [], zm_proto_code = 0, zm_proto_description = []\<rparr>"

text \<open>Modelled from the spec: \<^verbatim>\<open>zm_proto_encode_ok\<close> turns the buffer into an OK status.\<close>

definition zm_proto_encode_ok :: "zm_proto_t \<Rightarrow> zm_proto_t" where
  "zm_proto_encode_ok m = m\<lparr>zm_proto_id := ZM_PROTO_OK\<rparr>"

text \<open>
  Modelled from the spec: \<^verbatim>\<open>zm_proto_encode_error\<close> turns the buffer into an error status
  carrying a numeric code and a human-readable text.
\<close>

definition zm_proto_encode_error :: "zm_proto_t \<Rightarrow> nat \<Rightarrow> string \<Rightarrow> zm_proto_t" where
  "zm_proto_encode_error m c txt =
     m\<lparr>zm_proto_id := ZM_PROTO_ERROR, zm_proto_code := c, zm_proto_description := txt\<rparr>"

text \<open>Decimal rendering of a count, as stored in the string-valued annotation block.\<close>

definition digit_char :: "nat \<Rightarrow> char" where
  "digit_char d = ''0123456789'' ! (d mod 10)"

fun string_of_nat :: "nat \<Rightarrow> string" where
  "string_of_nat n =
     (if n < 10 then [digit_char n] else string_of_nat (n div 10) @ [digit_char (n mod 10)])"

declare string_of_nat.simps [simp del]

text \<open>
  Modelled from the spec: \<^verbatim>\<open>zm_proto_ext_set_int\<close> sets one annotation of a message to an
  integer (replacing the annotation if the key is there). The C function works through a
  pointer to the message; a call with a NULL pointer is handled where the actor makes the
  call.
\<close>

definition zm_proto_ext_set_int :: "zm_proto_t \<Rightarrow> string \<Rightarrow> nat \<Rightarrow> zm_proto_t" where
  "zm_proto_ext_set_int m key n =
     m\<lparr>zm_proto_ext := AList.update key (string_of_nat n) (zm_proto_ext m)\<rparr>"

text \<open>Modelled from the spec: reading one annotation of a message, if it is there.\<close>

definition zm_proto_ext_string :: "zm_proto_t \<Rightarrow> string \<Rightarrow> string option" where
  "zm_proto_ext_string m key = map_of (zm_proto_ext m) key"

subsection \<open>Effects and the world\<close>

datatype effect =
    Zsys_warning string "string list"
  | Zsys_error string "string list"
  | Devices_new "string option"
  | Devices_insert zm_proto_t
  | Devices_delete string
  | Devices_store "string option" "(string \<times> zm_proto_t) list"
  | Mlm_connect string nat string
  | Mlm_set_producer string
  | Mlm_set_consumer string string
  | Mlm_send string zm_proto_t
  | Mlm_sendto string string zm_proto_t

text \<open>
  \<open>files\<close> is the content of the registry's backing files; \<open>trace\<close> lists the
  effects so far, oldest first.
\<close>

record world =
  files :: "(string \<times> (string \<times> zm_proto_t) list) list"
  trace :: "effect list"

definition emit :: "effect \<Rightarrow> world \<Rightarrow> world" where
  "emit e w = w\<lparr>trace := trace w @ [e]\<rparr>"

datatype abort = Assert_failed string | Null_object string

subsection \<open>Device registry (zm_devices)\<close>

text \<open>
  Modelled from the spec: the Device Registry (class zm_devices) is missing from the
  sources. It is a key-value store of device records keyed by name, with an optional
  backing file; it owns its records (what it is given, it copies) and keeps them in its own
  iteration order.
\<close>

record zm_devices_t =
  zm_devices_file :: "string option"
  zm_devices_recs :: "(string \<times> zm_proto_t) list"

text \<open>
  Modelled from the spec: a registry constructed for a backing file starts from what that
  file holds; without a file, or with a file that does not exist yet, it starts empty.
\<close>

definition zm_devices_new :: "string option \<Rightarrow> world \<Rightarrow> zm_devices_t \<times> world" where
  "zm_devices_new file w =
     (\<lparr>zm_devices_file = file,
       zm_devices_recs =
         (case file of None \<Rightarrow> []
          | Some f \<Rightarrow> (case map_of (files w) f of None \<Rightarrow> [] | Some recs \<Rightarrow> recs))\<rparr>,
      emit (Devices_new file) w)"

text \<open>Modelled from the spec: binding the registry to a backing file.\<close>

definition zm_devices_set_file :: "zm_devices_t \<Rightarrow> string \<Rightarrow> zm_devices_t" where
  "zm_devices_set_file devs f = devs\<lparr>zm_devices_file := Some f\<rparr>"

text \<open>
  Modelled from the spec: a request to persist writes the registry's contents to its
  backing file; without a backing file nothing is written.
\<close>

definition zm_devices_store :: "zm_devices_t \<Rightarrow> world \<Rightarrow> world" where
  "zm_devices_store devs w =
     emit (Devices_store (zm_devices_file devs) (zm_devices_recs devs))
       (case zm_devices_file devs of None \<Rightarrow> w
        | Some f \<Rightarrow> w\<lparr>files := AList.update f (zm_devices_recs devs) (files w)\<rparr>)"

text \<open>Modelled from the spec: insert is an upsert (replace if the name exists).\<close>

definition zm_devices_insert :: "zm_devices_t \<Rightarrow> zm_proto_t \<Rightarrow> world \<Rightarrow> zm_devices_t \<times> world" where
  "zm_devices_insert devs m w =
     (devs\<lparr>zm_devices_recs := AList.update (zm_proto_device m) m (zm_devices_recs devs)\<rparr>,
      emit (Devices_insert m) w)"

text \<open>Modelled from the spec: delete removes the record if present; no error if absent.\<close>

definition zm_devices_delete :: "zm_devices_t \<Rightarrow> string \<Rightarrow> world \<Rightarrow> zm_devices_t \<times> world" where
  "zm_devices_delete devs name w =
     (devs\<lparr>zm_devices_recs := AList.delete name (zm_devices_recs devs)\<rparr>,
      emit (Devices_delete name) w)"

text \<open>Modelled from the spec: lookup by name is read-only; size is the number of records.\<close>

definition zm_devices_lookup :: "zm_devices_t \<Rightarrow> string \<Rightarrow> zm_proto_t option" where
  "zm_devices_lookup devs name = map_of (zm_devices_recs devs) name"

definition zm_devices_size :: "zm_devices_t \<Rightarrow> nat" where
  "zm_devices_size devs = length (zm_devices_recs devs)"

subsection \<open>Configuration tree (zconfig)\<close>

text \<open>
  Modelled from the spec: the configuration is a tree addressed by slash-separated paths
  (\<^verbatim>\<open>malamute/endpoint\<close>, \<^verbatim>\<open>server/file\<close>, ...); resolving a path gives the value of the
  node there, or the default when no such node exists. Parsing the configuration text is
  outside the actor and is a parameter of the model (see \<open>env\<close>).
\<close>

datatype zconfig_t =
  Zconfig (zconfig_name: string) (zconfig_value: "string option") (zconfig_child: "zconfig_t list")

text \<open>Modelled from the spec: a path is cut into its segments at every slash.\<close>

fun path_segments :: "string \<Rightarrow> string list" where
  "path_segments [] = [Nil]"
| "path_segments (c # cs) =
     (if c = CHR ''/'' then [] # path_segments cs
      else (case path_segments cs of [] \<Rightarrow> [c # Nil] | s # ss \<Rightarrow> (c # s) # ss))"

text \<open>
  Modelled from the spec: locating a path descends from the root, at each segment into the
  first child of that name; \<^verbatim>\<open>zconfig_resolve\<close> gives the value of the node found.
\<close>

fun locate_segments :: "zconfig_t \<Rightarrow> string list \<Rightarrow> zconfig_t option" where
  "locate_segments cfg [] = None"
| "locate_segments cfg (seg # rest) =
     (case find (\<lambda>ch. zconfig_name ch = seg) (zconfig_child cfg) of
        None \<Rightarrow> None
      | Some ch \<Rightarrow> if rest = [] then Some ch else locate_segments ch rest)"

definition zconfig_locate :: "zconfig_t \<Rightarrow> string \<Rightarrow> zconfig_t option" where
  "zconfig_locate cfg path = locate_segments cfg (path_segments path)"

definition zconfig_resolve :: "zconfig_t \<Rightarrow> string \<Rightarrow> string option \<Rightarrow> string option" where
  "zconfig_resolve cfg path dflt =
     (case zconfig_locate cfg path of None \<Rightarrow> dflt | Some item \<Rightarrow> zconfig_value item)"

subsection \<open>Broker client (mlm_client), poller and environment\<close>

text \<open>
  Modelled from the spec: the Broker Client Handle keeps the connection, the declared
  producer topic, the declared subscriptions and, for the last delivery received, its
  delivery kind (command), reply address (sender) and subject.
\<close>

record mlm_client_t =
  mlm_client_connected :: "(string \<times> string) option"
  mlm_client_producer :: "string option"
  mlm_client_consumers :: "(string \<times> string) list"
  mlm_client_command :: string
  mlm_client_sender :: string
  mlm_client_subject :: string

text \<open>Modelled from the spec: a new handle is not connected and has received nothing.\<close>

definition mlm_client_new :: mlm_client_t where
  "mlm_client_new =
     \<lparr>mlm_client_connected = None, mlm_client_producer = None, mlm_client_consumers = [],
      mlm_client_command = [], mlm_client_sender = [], mlm_client_subject = []\<rparr>"

text \<open>
  Modelled from the spec: the poll set holds the control channel (the actor's pipe) and the
  broker channel (the client's message pipe).
\<close>

datatype sock = Actor_pipe | Client_msgpipe

definition zpoller_add :: "sock list \<Rightarrow> sock \<Rightarrow> sock list" where
  "zpoller_add p s = p @ [s]"

definition zpoller_remove :: "sock list \<Rightarrow> sock \<Rightarrow> sock list" where
  "zpoller_remove p s = removeAll s p"

text \<open>
  What the actor cannot decide itself: whether a configuration text parses, and the return
  codes of the broker calls.
\<close>

record env =
  zconfig_str_load :: "string \<Rightarrow> zconfig_t option"
  mlm_client_connect :: "string \<Rightarrow> nat \<Rightarrow> string \<Rightarrow> int"
  mlm_client_set_producer :: "string \<Rightarrow> int"
  mlm_client_set_consumer :: "string \<Rightarrow> string \<Rightarrow> int"

text \<open>One delivery from the broker: its metadata, and what decoding leaves in the buffer.\<close>

record delivery =
  delivery_command :: string
  delivery_sender :: string
  delivery_subject :: string
  delivery_rc :: int
  delivery_decoded :: zm_proto_t

subsection \<open>The actor structure\<close>

record zm_device_t =
  poller :: "sock list"
  terminated :: bool
  verbose :: bool
  config :: "zconfig_t option"
  client :: "mlm_client_t option"
  consumers :: "(string \<times> string option) list option"
  msg :: zm_proto_t
  devices :: zm_devices_t

text \<open>
  Create a new instance (\<^verbatim>\<open>zm_device_new\<close>): the poll set holds the pipe and the new client's
  message pipe, the registry has no backing file, and nothing is configured.
\<close>

definition zm_device_new :: "world \<Rightarrow> zm_device_t \<times> world" where
  "zm_device_new w =
     (let (devs, w1) = zm_devices_new None w
      in (\<lparr>poller = zpoller_add [Actor_pipe] Client_msgpipe, terminated = False,
           verbose = False, config = None, client = Some mlm_client_new, consumers = None,
           msg = zm_proto_new, devices = devs\<rparr>, w1))"

text \<open>The accessors \<^verbatim>\<open>zm_device_cfg_*\<close>: NULL without a configuration, else the path's value.\<close>

definition zm_device_cfg_endpoint :: "zm_device_t \<Rightarrow> string option" where
  "zm_device_cfg_endpoint self =
     (case config self of Some cfg \<Rightarrow> zconfig_resolve cfg ''malamute/endpoint'' None
      | None \<Rightarrow> None)"

definition zm_device_cfg_address :: "zm_device_t \<Rightarrow> string option" where
  "zm_device_cfg_address self =
     (case config self of Some cfg \<Rightarrow> zconfig_resolve cfg ''malamute/address'' None
      | None \<Rightarrow> None)"

definition zm_device_cfg_producer :: "zm_device_t \<Rightarrow> string option" where
  "zm_device_cfg_producer self =
     (case config self of Some cfg \<Rightarrow> zconfig_resolve cfg ''malamute/producer'' None
      | None \<Rightarrow> None)"

definition zm_device_cfg_file :: "zm_device_t \<Rightarrow> string option" where
  "zm_device_cfg_file self =
     (case config self of Some cfg \<Rightarrow> zconfig_resolve cfg ''server/file'' None
      | None \<Rightarrow> None)"


text \<open>
  \<^verbatim>\<open>zm_device_cfg_consumer_first\<close> rebuilds the table of subscriptions from the children of
  \<^verbatim>\<open>malamute/consumer\<close> (stream name to pattern; a name inserted twice keeps its first
  pattern). It is called only with a configuration loaded. The walk
  \<^verbatim>\<open>first\<close>/\<^verbatim>\<open>next\<close>/\<^verbatim>\<open>cursor\<close> over that table is the recursion of \<open>consumer_loop\<close> below;
  the table's iteration order is taken to be the order of the configuration, and the walk
  ends at the first entry without a pattern, as \<^verbatim>\<open>while (pattern)\<close> does.
\<close>

fun consumers_of :: "zconfig_t list \<Rightarrow> (string \<times> string option) list" where
  "consumers_of [] = []"
| "consumers_of (ch # chs) =
     (zconfig_name ch, zconfig_value ch) #
       filter (\<lambda>kv. fst kv \<noteq> zconfig_name ch) (consumers_of chs)"

definition zm_device_cfg_consumer_first :: "zm_device_t \<Rightarrow> zm_device_t" where
  "zm_device_cfg_consumer_first self =
     self\<lparr>consumers :=
       Some (case config self of None \<Rightarrow> []
             | Some root \<Rightarrow>
                 (case zconfig_locate root ''malamute/consumer'' of None \<Rightarrow> []
                  | Some cfg \<Rightarrow> consumers_of (zconfig_child cfg)))\<rparr>"

fun consumer_loop ::
  "env \<Rightarrow> mlm_client_t \<Rightarrow> (string \<times> string option) list \<Rightarrow> world \<Rightarrow> int \<times> mlm_client_t \<times> world"
where
  "consumer_loop e c [] w = (0, c, w)"
| "consumer_loop e c ((stream, None) # rest) w = (0, c, w)"
| "consumer_loop e c ((stream, Some pattern) # rest) w =
     (let r = mlm_client_set_consumer e stream pattern;
          w1 = emit (Mlm_set_consumer stream pattern) w
      in if r = - 1
         then (- 1, c, emit (Zsys_warning ''Can't setup consumer %s/%s'' [stream, pattern]) w1)
         else consumer_loop e
                (c\<lparr>mlm_client_consumers := mlm_client_consumers c @ [(stream, pattern)]\<rparr>)
                rest w1)"

text \<open>
  \<^verbatim>\<open>zm_device_connect_to_malamute\<close>, in two parts: \<open>zm_device_connect_consumers\<close> is the
  tail of the C function from \<^verbatim>\<open>zm_device_cfg_consumer_first\<close> on.
\<close>

definition zm_device_connect_consumers ::
  "env \<Rightarrow> zm_device_t \<Rightarrow> mlm_client_t \<Rightarrow> world \<Rightarrow> int \<times> zm_device_t \<times> world"
where
  "zm_device_connect_consumers e self c w =
     (let self1 = zm_device_cfg_consumer_first (self\<lparr>client := Some c\<rparr>);
          (r, c1, w1) =
            consumer_loop e c (case consumers self1 of None \<Rightarrow> [] | Some tab \<Rightarrow> tab) w
      in (r, self1\<lparr>client := Some c1\<rparr>, w1))"

definition zm_device_connect_to_malamute ::
  "env \<Rightarrow> zm_device_t \<Rightarrow> world \<Rightarrow> int \<times> zm_device_t \<times> world"
where
  "zm_device_connect_to_malamute e self w =
     (case config self of
        None \<Rightarrow>
          (- 1, self,
           emit (Zsys_warning ''zm-device: no CONFIGuration provided, there is nothing to do'' []) w)
      | Some _ \<Rightarrow>
     (case zm_device_cfg_endpoint self of
        None \<Rightarrow> (- 1, self, emit (Zsys_error ''malamute/endpoint is missing'' []) w)
      | Some endpoint \<Rightarrow>
     (case zm_device_cfg_address self of
        None \<Rightarrow> (- 1, self, emit (Zsys_error ''malamute/address is missing'' []) w)
      | Some address \<Rightarrow>
     (let (c, self1) =
            (case client self of
               None \<Rightarrow>
                 (mlm_client_new,
                  self\<lparr>client := Some mlm_client_new,
                       poller := zpoller_add (poller self) Client_msgpipe\<rparr>)
             | Some c \<Rightarrow> (c, self));
          r = mlm_client_connect e endpoint 5000 address;
          w1 = emit (Mlm_connect endpoint 5000 address) w
      in if r = - 1
         then (- 1, self1,
               emit (Zsys_warning ''Can't connect to malamute endpoint %'' [endpoint]) w1)
         else
     (let c1 = c\<lparr>mlm_client_connected := Some (endpoint, address)\<rparr>
      in case zm_device_cfg_producer self1 of
           None \<Rightarrow> zm_device_connect_consumers e self1 c1 w1
         | Some producer \<Rightarrow>
             (let r2 = mlm_client_set_producer e producer;
                  w2 = emit (Mlm_set_producer producer) w1
              in if r2 = - 1
                 then (- 1, self1\<lparr>client := Some c1\<rparr>,
                       emit (Zsys_warning ''Can't setup publisher on stream %'' [producer]) w2)
                 else zm_device_connect_consumers e self1
                        (c1\<lparr>mlm_client_producer := Some producer\<rparr>) w2))))))"

text \<open>Start this actor (\<^verbatim>\<open>zm_device_start\<close>): 0 if the connection was set up, otherwise -1.\<close>

definition zm_device_start :: "env \<Rightarrow> zm_device_t \<Rightarrow> world \<Rightarrow> int \<times> zm_device_t \<times> world" where
  "zm_device_start e self w =
     (let (r, self1, w1) = zm_device_connect_to_malamute e self w
      in if r = - 1 then (r, self1, w1) else (0, self1, w1))"

text \<open>
  Stop this actor (\<^verbatim>\<open>zm_device_stop\<close>). \<^verbatim>\<open>mlm_client_msgpipe (self->client)\<close> is evaluated
  first, with whatever \<^verbatim>\<open>self->client\<close> is; \<^verbatim>\<open>mlm_client_destroy\<close> then sets it to NULL.
\<close>

definition zm_device_stop ::
  "zm_device_t \<Rightarrow> world \<Rightarrow> (abort \<times> world) + (int \<times> zm_device_t \<times> world)"
where
  "zm_device_stop self w =
     (case client self of
        None \<Rightarrow> Inl (Null_object ''mlm_client_msgpipe'', w)
      | Some c \<Rightarrow>
          Inr (0,
               self\<lparr>poller := zpoller_remove (poller self) Client_msgpipe, client := None\<rparr>,
               zm_devices_store (devices self) w))"

text \<open>
  A control message is the list of its frames; \<^verbatim>\<open>zmsg_popstr\<close> takes the first frame off,
  or gives NULL when there is none.
\<close>

definition zmsg_popstr :: "string list \<Rightarrow> string option \<times> string list" where
  "zmsg_popstr request = (case request of [] \<Rightarrow> (None, []) | f # fs \<Rightarrow> (Some f, fs))"

text \<open>Config message (\<^verbatim>\<open>zm_device_config\<close>): the next frame is the configuration as text.\<close>

definition zm_device_config ::
  "env \<Rightarrow> zm_device_t \<Rightarrow> world \<Rightarrow> string list \<Rightarrow> int \<times> zm_device_t \<times> world"
where
  "zm_device_config e self w request =
     (case fst (zmsg_popstr request) of
        None \<Rightarrow> (- 1, self, w)
      | Some str_config \<Rightarrow>
          (case zconfig_str_load e str_config of
             None \<Rightarrow>
               (- 1, self, emit (Zsys_warning ''zm_device: can't load config file from string'' []) w)
           | Some foo \<Rightarrow>
               (let self1 = self\<lparr>config := Some foo\<rparr>
                in case zm_device_cfg_file self1 of
                     None \<Rightarrow> (0, self1, w)
                   | Some file \<Rightarrow>
                       (let devs = (if zm_devices_file (devices self1) = None
                                    then zm_devices_set_file (devices self1) file
                                    else devices self1);
                            w1 = zm_devices_store devs w;
                            (devs2, w2) = zm_devices_new (Some file) w1
                        in (0, self1\<lparr>devices := devs2\<rparr>, w2)))))"

text \<open>
  Handling of one message from the control pipe (\<^verbatim>\<open>zm_device_recv_api\<close>). \<open>None\<close> as
  request is the interrupted receive. The return values of start, stop and config are
  dropped, as in the source.
\<close>

definition zm_device_recv_api ::
  "env \<Rightarrow> zm_device_t \<Rightarrow> world \<Rightarrow> string list option \<Rightarrow> (abort \<times> world) + (zm_device_t \<times> world)"
where
  "zm_device_recv_api e self w request_opt =
     (case request_opt of
        None \<Rightarrow> Inr (self, w)
      | Some request \<Rightarrow>
          (case zmsg_popstr request of
             (None, _) \<Rightarrow> Inl (Null_object ''streq'', w)
           | (Some command, rest) \<Rightarrow>
               if command = ''START'' then
                 (let (r, self1, w1) = zm_device_start e self w in Inr (self1, w1))
               else if command = ''STOP'' then
                 (case zm_device_stop self w of
                    Inl a \<Rightarrow> Inl a
                  | Inr (r, self1, w1) \<Rightarrow> Inr (self1, w1))
               else if command = ''VERBOSE'' then Inr (self\<lparr>verbose := True\<rparr>, w)
               else if command = ''$TERM'' then Inr (self\<lparr>terminated := True\<rparr>, w)
               else if command = ''CONFIG'' then
                 (let (r, self1, w1) = zm_device_config e self w rest in Inr (self1, w1))
               else
                 Inl (Assert_failed ''false'',
                      emit (Zsys_error (''invalid command '%s'' @ [CHR 0x27]) [command]) w)))"

subsection \<open>Mailbox and stream handlers\<close>

text \<open>
  \<^verbatim>\<open>zm_proto_sendto\<close> sends a message point-to-point to an address under a subject;
  \<^verbatim>\<open>zm_proto_send_mlm\<close> and \<^verbatim>\<open>mlm_client_send\<close> broadcast it on the producer topic under a
  subject. Both need the client, which the mailbox handler has already dereferenced.
\<close>

definition zm_proto_sendto :: "zm_proto_t \<Rightarrow> mlm_client_t \<Rightarrow> string \<Rightarrow> string \<Rightarrow> world \<Rightarrow> world" where
  "zm_proto_sendto m c address subject w = emit (Mlm_sendto address subject m) w"

definition zm_proto_send_mlm :: "zm_proto_t \<Rightarrow> mlm_client_t \<Rightarrow> string \<Rightarrow> world \<Rightarrow> world" where
  "zm_proto_send_mlm m c subject w = emit (Mlm_send subject m) w"

text \<open>\<^verbatim>\<open>zm_device_publish\<close>; its return code is dropped by every caller.\<close>

definition zm_device_publish :: "mlm_client_t \<Rightarrow> zm_proto_t \<Rightarrow> string \<Rightarrow> world \<Rightarrow> world" where
  "zm_device_publish c device subject w = emit (Mlm_send subject device) w"

text \<open>
  The two \<^verbatim>\<open>while (msg)\<close> iterations of the mailbox handler. \<^verbatim>\<open>msg\<close> points into the
  registry: it is the head of the records still to visit, \<^verbatim>\<open>zm_devices_next\<close> moves to the
  tail, and the loop ends at NULL, the empty list. Setting \<^verbatim>\<open>_seq\<close> through the pointer
  changes the stored record, so the loop returns the visited records as they are afterwards.
\<close>

fun get_all_loop ::
  "mlm_client_t \<Rightarrow> string \<Rightarrow> nat \<Rightarrow> (string \<times> zm_proto_t) list \<Rightarrow> world
     \<Rightarrow> (string \<times> zm_proto_t) list \<times> world"
where
  "get_all_loop c subject i [] w = ([], w)"
| "get_all_loop c subject i ((name, m) # rest) w =
     (let m1 = zm_proto_ext_set_int m ''_seq'' i;
          w1 = zm_proto_sendto m1 c (mlm_client_sender c) subject w;
          (rest1, w2) = get_all_loop c subject (Suc i) rest w1
      in ((name, m1) # rest1, w2))"

fun publish_all_loop ::
  "mlm_client_t \<Rightarrow> string \<Rightarrow> nat \<Rightarrow> (string \<times> zm_proto_t) list \<Rightarrow> world
     \<Rightarrow> (string \<times> zm_proto_t) list \<times> world"
where
  "publish_all_loop c subject i [] w = ([], w)"
| "publish_all_loop c subject i ((name, m) # rest) w =
     (let m1 = zm_proto_ext_set_int m ''_seq'' i;
          w1 = zm_proto_send_mlm m1 c subject w;
          (rest1, w2) = publish_all_loop c subject (Suc i) rest w1
      in ((name, m1) # rest1, w2))"

text \<open>
  \<^verbatim>\<open>zm_device_recv_mlm_mailbox\<close>. Every branch that reaches the label \<^verbatim>\<open>send\<close> ends in
  \<open>zm_proto_sendto \<dots> ''LOOKUP''\<close>; GET-ALL on a non-empty registry and PUBLISH-ALL return
  before it. In both of them \<^verbatim>\<open>zm_proto_ext_set_int (msg, "_cnt", \<dots>)\<close> is called once, on
  what \<^verbatim>\<open>zm_devices_first\<close> returned, before the loop tests \<^verbatim>\<open>msg\<close>.
\<close>

definition zm_device_recv_mlm_mailbox ::
  "zm_device_t \<Rightarrow> world \<Rightarrow> (abort \<times> world) + (zm_device_t \<times> world)"
where
  "zm_device_recv_mlm_mailbox self w =
     (case client self of
        None \<Rightarrow> Inl (Null_object ''mlm_client_subject'', w)
      | Some c \<Rightarrow>
     (let subject = mlm_client_subject c in
      if subject = ''INSERT'' then
        (let (devs, w1) = zm_devices_insert (devices self) (msg self) w;
             w2 = zm_device_publish c (msg self) subject w1;
             self1 = self\<lparr>devices := devs, msg := zm_proto_encode_ok (msg self)\<rparr>
         in Inr (self1, zm_proto_sendto (msg self1) c (mlm_client_sender c) ''LOOKUP'' w2))
      else if subject = ''DELETE'' then
        (let device = zm_proto_device (msg self);
             (devs, w1) = zm_devices_delete (devices self) device w;
             w2 = zm_device_publish c (msg self) subject w1;
             self1 = self\<lparr>devices := devs, msg := zm_proto_encode_ok (msg self)\<rparr>
         in Inr (self1, zm_proto_sendto (msg self1) c (mlm_client_sender c) ''LOOKUP'' w2))
      else if subject = ''LOOKUP'' then
        (let device = zm_proto_device (msg self)
         in case zm_devices_lookup (devices self) device of
              Some reply \<Rightarrow>
                Inr (self, zm_proto_sendto reply c (mlm_client_sender c) ''LOOKUP'' w)
            | None \<Rightarrow>
                (let self1 = self\<lparr>msg := zm_proto_encode_error (msg self) 404
                                              ''Requested device does not exists''\<rparr>
                 in Inr (self1, zm_proto_sendto (msg self1) c (mlm_client_sender c) ''LOOKUP'' w)))
      else if subject = ''GET-ALL'' then
        (if zm_devices_size (devices self) = 0 then
           (let self1 = self\<lparr>msg := zm_proto_encode_error (msg self) 404 ''No devices''\<rparr>
            in Inr (self1, zm_proto_sendto (msg self1) c (mlm_client_sender c) ''LOOKUP'' w))
         else
           (case zm_devices_recs (devices self) of
              [] \<Rightarrow> Inl (Null_object ''zm_proto_ext_set_int'', w)
            | (name, first) # rest \<Rightarrow>
                (let first1 = zm_proto_ext_set_int first ''_cnt'' (zm_devices_size (devices self));
                     (recs, w1) = get_all_loop c subject 0 ((name, first1) # rest) w
                 in Inr (self\<lparr>devices := (devices self)\<lparr>zm_devices_recs := recs\<rparr>\<rparr>, w1))))
      else if subject = ''PUBLISH-ALL'' then
        (case zm_devices_recs (devices self) of
           [] \<Rightarrow> Inl (Null_object ''zm_proto_ext_set_int'', w)
         | (name, first) # rest \<Rightarrow>
             (let first1 = zm_proto_ext_set_int first ''_cnt'' (zm_devices_size (devices self));
                  (recs, w1) = publish_all_loop c subject 0 ((name, first1) # rest) w
              in Inr (self\<lparr>devices := (devices self)\<lparr>zm_devices_recs := recs\<rparr>\<rparr>, w1)))
      else
        (let self1 = self\<lparr>msg := zm_proto_encode_error (msg self) 403 ''Subject not found''\<rparr>
         in Inr (self1, zm_proto_sendto (msg self1) c (mlm_client_sender c) ''LOOKUP'' w))))"

text \<open>\<^verbatim>\<open>zm_device_recv_mlm_stream\<close>: a broadcast that is not a device message is only logged.\<close>

definition zm_device_recv_mlm_stream :: "zm_device_t \<Rightarrow> mlm_client_t \<Rightarrow> world \<Rightarrow> world" where
  "zm_device_recv_mlm_stream self c w =
     (if zm_proto_id (msg self) \<noteq> ZM_PROTO_DEVICE then
        (if verbose self
         then emit (Zsys_warning ''message from sender=%s, with subject=%s os not DEVICE''
                      [mlm_client_sender c, mlm_client_subject c]) w
         else w)
      else w)"

text \<open>
  \<^verbatim>\<open>zm_device_recv_mlm\<close>: receive one delivery from the broker (which sets the client's
  command, sender and subject), decode it into the buffer \<^verbatim>\<open>self->msg\<close>, and dispatch on the
  delivery kind.
\<close>

definition zm_device_recv_mlm ::
  "zm_device_t \<Rightarrow> world \<Rightarrow> delivery \<Rightarrow> (abort \<times> world) + (zm_device_t \<times> world)"
where
  "zm_device_recv_mlm self w d =
     (case client self of
        None \<Rightarrow> Inl (Null_object ''mlm_client_recv'', w)
      | Some c0 \<Rightarrow>
     (let c = c0\<lparr>mlm_client_command := delivery_command d,
                 mlm_client_sender := delivery_sender d,
                 mlm_client_subject := delivery_subject d\<rparr>;
          self1 = self\<lparr>client := Some c, msg := delivery_decoded d\<rparr>
      in if delivery_rc d \<noteq> 0 then
           Inr (self1,
                if verbose self1
                then emit (Zsys_warning ''can't read message from sender=%s, with subject=%s''
                             [mlm_client_sender c, mlm_client_subject c]) w
                else w)
         else if mlm_client_command c = ''MAILBOX DELIVER'' then zm_device_recv_mlm_mailbox self1 w
         else if mlm_client_command c = ''STREAM DELIVER''
         then Inr (self1, zm_device_recv_mlm_stream self1 c w)
         else Inr (self1, w)))"

subsection \<open>Running handlers one after another, and reading the trace\<close>

text \<open>
  Between two deliveries the actor's loop only carries its state on; once a handler has
  aborted there is no next delivery.
\<close>

definition recv_mlm_next ::
  "(abort \<times> world) + (zm_device_t \<times> world) \<Rightarrow> delivery \<Rightarrow> (abort \<times> world) + (zm_device_t \<times> world)"
where
  "recv_mlm_next r d = (case r of Inl a \<Rightarrow> Inl a | Inr (self, w) \<Rightarrow> zm_device_recv_mlm self w d)"

definition world_of :: "(abort \<times> world) + (zm_device_t \<times> world) \<Rightarrow> world" where
  "world_of r = (case r of Inl (a, w) \<Rightarrow> w | Inr (self, w) \<Rightarrow> w)"

text \<open>The effects a handler added to a trace that was \<open>n\<close> long before.\<close>

definition effects_since :: "nat \<Rightarrow> (abort \<times> world) + (zm_device_t \<times> world) \<Rightarrow> effect list" where
  "effects_since n r = drop n (trace (world_of r))"

text \<open>The point-to-point replies in a list of effects: (address, subject) and content.\<close>

fun sendto_headers :: "effect list \<Rightarrow> (string \<times> string) list" where
  "sendto_headers [] = []"
| "sendto_headers (Mlm_sendto address subject m # es) = (address, subject) # sendto_headers es"
| "sendto_headers (e # es) = sendto_headers es"

fun sendto_contents :: "effect list \<Rightarrow> zm_proto_t list" where
  "sendto_contents [] = []"
| "sendto_contents (Mlm_sendto address subject m # es) = m # sendto_contents es"
| "sendto_contents (e # es) = sendto_contents es"

text \<open>A well-formed point-to-point delivery, as the broker hands it to \<^verbatim>\<open>zm_device_recv_mlm\<close>.\<close>

definition mailbox_deliver :: "string \<Rightarrow> string \<Rightarrow> zm_proto_t \<Rightarrow> delivery" where
  "mailbox_deliver sender subject m =
     \<lparr>delivery_command = ''MAILBOX DELIVER'', delivery_sender = sender,
      delivery_subject = subject, delivery_rc = 0, delivery_decoded = m\<rparr>"

subsection \<open>Concrete inputs\<close>

text \<open>
  The inputs are those of the self test \<^verbatim>\<open>zm_device_test\<close>: device messages, an OK message
  as request body, a configuration text.

  Modelled from the spec: \<^verbatim>\<open>zm_proto_encode_device_v1\<close> builds a device record from its
  name, timestamp, size value and annotation block.
\<close>

definition zm_proto_encode_device_v1 ::
  "string \<Rightarrow> nat \<Rightarrow> nat \<Rightarrow> (string \<times> string) list \<Rightarrow> zm_proto_t"
where
  "zm_proto_encode_device_v1 device t ttl ext =
     \<lparr>zm_proto_id = ZM_PROTO_DEVICE, zm_proto_device = device, zm_proto_time = t,
      zm_proto_ttl = ttl, zm_proto_ext = ext, zm_proto_code = 0, zm_proto_description = []\<rparr>"

definition world0 :: world where
  "world0 = \<lparr>files = [], trace = []\<rparr>"

definition test_actor :: "zm_devices_t \<Rightarrow> zm_device_t" where
  "test_actor devs = (fst (zm_device_new world0))\<lparr>devices := devs\<rparr>"

definition test_config_text :: string where
  "test_config_text = ''server'' @ [CHR 0x0A] @ ''    file = devices.zpl''"

definition test_config :: zconfig_t where
  "test_config =
     Zconfig ''root'' None [Zconfig ''server'' None [Zconfig ''file'' (Some ''devices.zpl'') []]]"

definition test_env :: env where
  "test_env =
     \<lparr>zconfig_str_load = (\<lambda>s. if s = test_config_text then Some test_config else None),
      mlm_client_connect = (\<lambda>endpoint timeout address. 0),
      mlm_client_set_producer = (\<lambda>stream. 0),
      mlm_client_set_consumer = (\<lambda>stream pattern. 0)\<rparr>"

text \<open>The actor right after \<^verbatim>\<open>zm_device_recv_mlm\<close> has taken a mailbox request from "writer".\<close>

definition test_request :: "string \<Rightarrow> zm_proto_t \<Rightarrow> zm_devices_t \<Rightarrow> zm_device_t" where
  "test_request subject m devs =
     (test_actor devs)
       \<lparr>client := Some (mlm_client_new\<lparr>mlm_client_command := ''MAILBOX DELIVER'',
                                       mlm_client_sender := ''writer'',
                                       mlm_client_subject := subject\<rparr>),
        msg := m\<rparr>"

definition device1 :: zm_proto_t where
  "device1 = zm_proto_encode_device_v1 ''device1'' 7 1024 []"

definition device2 :: zm_proto_t where
  "device2 = zm_proto_encode_device_v1 ''device2'' 8 1024 []"

definition no_devices :: zm_devices_t where
  "no_devices = \<lparr>zm_devices_file = None, zm_devices_recs = []\<rparr>"

text \<open>What a reply says: its kind, code and text; and its name with both sequencing annotations.\<close>

definition reply_status :: "zm_proto_t \<Rightarrow> zm_proto_kind \<times> nat \<times> string" where
  "reply_status m = (zm_proto_id m, zm_proto_code m, zm_proto_description m)"

definition reply_sequencing :: "zm_proto_t \<Rightarrow> string \<times> string option \<times> string option" where
  "reply_sequencing m =
     (zm_proto_device m, zm_proto_ext_string m ''_seq'', zm_proto_ext_string m ''_cnt'')"

text \<open>Reading a decimal rendering back, digit by digit (any other character counts as 0).\<close>

definition digit_value :: "char \<Rightarrow> nat" where
  "digit_value ch =
     (if ch = CHR ''1'' then 1 else if ch = CHR ''2'' then 2 else if ch = CHR ''3'' then 3
      else if ch = CHR ''4'' then 4 else if ch = CHR ''5'' then 5 else if ch = CHR ''6'' then 6
      else if ch = CHR ''7'' then 7 else if ch = CHR ''8'' then 8 else if ch = CHR ''9'' then 9
      else 0)"

fun nat_of_string :: "nat \<Rightarrow> string \<Rightarrow> nat" where
  "nat_of_string acc [] = acc"
| "nat_of_string acc (ch # cs) = nat_of_string (10 * acc + digit_value ch) cs"

section \<open>Properties\<close>

subsection \<open>Helper lemmas\<close>

lemma upt_step: "[i..<Suc (i + n)] = i # [Suc i..<Suc (i + n)]"
  using upt_conv_Cons [of i "Suc (i + n)"] by simp

lemma get_all_loop_files: "files (snd (get_all_loop c s i recs w)) = files w"
  by (induction c s i recs w rule: get_all_loop.induct)
     (simp_all add: zm_proto_sendto_def emit_def Let_def case_prod_beta)

lemma get_all_loop_trace:
  "trace (snd (get_all_loop c s i recs w)) =
     trace w @ map (\<lambda>x. Mlm_sendto (mlm_client_sender c) s
                             (zm_proto_ext_set_int (snd (snd x)) ''_seq'' (fst x)))
                  (zip [i..<i + length recs] recs)"
proof (induction recs arbitrary: i w)
  case Nil
  show ?case by simp
next
  case (Cons a recs)
  obtain name m where a: "a = (name, m)" by (cases a)
  show ?case
    unfolding a
    by (simp add: Cons.IH zm_proto_sendto_def emit_def Let_def upt_step case_prod_beta
             del: upt_Suc)
qed

lemma publish_all_loop_files: "files (snd (publish_all_loop c s i recs w)) = files w"
  by (induction c s i recs w rule: publish_all_loop.induct)
     (simp_all add: zm_proto_send_mlm_def emit_def Let_def case_prod_beta)

lemma publish_all_loop_trace:
  "trace (snd (publish_all_loop c s i recs w)) =
     trace w @ map (\<lambda>x. Mlm_send s (zm_proto_ext_set_int (snd (snd x)) ''_seq'' (fst x)))
                  (zip [i..<i + length recs] recs)"
proof (induction recs arbitrary: i w)
  case Nil
  show ?case by simp
next
  case (Cons a recs)
  obtain name m where a: "a = (name, m)" by (cases a)
  show ?case
    unfolding a
    by (simp add: Cons.IH zm_proto_send_mlm_def emit_def Let_def upt_step case_prod_beta
             del: upt_Suc)
qed

lemma sendto_headers_append:
  "sendto_headers (xs @ ys) = sendto_headers xs @ sendto_headers ys"
  by (induction xs rule: sendto_headers.induct) simp_all

lemma sendto_headers_map_sendto:
  "sendto_headers (map (\<lambda>x. Mlm_sendto a s (f x)) xs) = replicate (length xs) (a, s)"
  by (induction xs) simp_all

lemma sendto_headers_map_send:
  "sendto_headers (map (\<lambda>x. Mlm_send s (f x)) xs) = []"
  by (induction xs) simp_all

subsection \<open>Control commands\<close>

text \<open>
  Claim C10. A control command whose verb is none of START, STOP, VERBOSE, CONFIG and $TERM
  is fatal: \<^verbatim>\<open>zm_device_recv_api\<close> logs the verb as invalid and then reaches
  \<^verbatim>\<open>assert (false)\<close>, whatever the actor's state and the rest of the message are.
\<close>

theorem recv_api_unknown_verb_aborts:
  assumes "command \<notin> {''START'', ''STOP'', ''VERBOSE'', ''CONFIG'', ''$TERM''}"
  shows "zm_device_recv_api e self w (Some (command # rest)) =
           Inl (Assert_failed ''false'',
                emit (Zsys_error (''invalid command '%s'' @ [CHR 0x27]) [command]) w)"
  using assms by (simp add: zm_device_recv_api_def zmsg_popstr_def)

theorem recv_api_unknown_verb_aborts_witness:
  "''BOGUS'' \<notin> {''START'', ''STOP'', ''VERBOSE'', ''CONFIG'', ''$TERM''} \<and>
   zm_device_recv_api test_env (test_actor \<lparr>zm_devices_file = None, zm_devices_recs = []\<rparr>)
       world0 (Some [''BOGUS'']) =
     Inl (Assert_failed ''false'',
          emit (Zsys_error (''invalid command '%s'' @ [CHR 0x27]) [''BOGUS'']) world0)"
proof -
  have h: "''BOGUS'' \<notin> {''START'', ''STOP'', ''VERBOSE'', ''CONFIG'', ''$TERM''}" by simp
  show ?thesis
    using h recv_api_unknown_verb_aborts [OF h, of test_env
        "test_actor \<lparr>zm_devices_file = None, zm_devices_recs = []\<rparr>" world0 "[]"]
    by simp
qed

text \<open>
  Claim C9. A CONFIG command whose payload does not parse as a configuration tree makes
  \<^verbatim>\<open>zm_device_config\<close> return -1 and leaves the actor structure exactly as it was
  (configuration, registry, connection and all other fields); the only effect is one logged
  warning. Through \<^verbatim>\<open>zm_device_recv_api\<close> the command returns normally, so the actor keeps
  running. A CONFIG command without any payload frame also returns -1 and changes nothing.
\<close>

theorem config_malformed_no_change:
  assumes "zconfig_str_load e str_config = None"
  shows "zm_device_config e self w (str_config # rest) =
           (- 1, self, emit (Zsys_warning ''zm_device: can't load config file from string'' []) w)
         \<and> zm_device_recv_api e self w (Some (''CONFIG'' # str_config # rest)) =
           Inr (self, emit (Zsys_warning ''zm_device: can't load config file from string'' []) w)
         \<and> zm_device_config e self w [] = (- 1, self, w)"
  using assms by (simp add: zm_device_config_def zm_device_recv_api_def zmsg_popstr_def)

theorem config_malformed_no_change_witness:
  "zconfig_str_load test_env ''}{'' = None \<and>
   zm_device_config test_env (test_actor \<lparr>zm_devices_file = None, zm_devices_recs = []\<rparr>)
       world0 [''}{''] =
     (- 1, test_actor \<lparr>zm_devices_file = None, zm_devices_recs = []\<rparr>,
      emit (Zsys_warning ''zm_device: can't load config file from string'' []) world0)"
proof -
  have h: "zconfig_str_load test_env ''}{'' = None"
    by (simp add: test_env_def test_config_text_def)
  show ?thesis
    using h config_malformed_no_change [OF h, of
        "test_actor \<lparr>zm_devices_file = None, zm_devices_recs = []\<rparr>" world0 "[]"]
    by simp
qed

lemma world_of_simps [simp]: "world_of (Inl (a, w)) = w" "world_of (Inr (self, w)) = w"
  by (simp_all add: world_of_def)

lemma recv_mlm_mailbox_deliver:
  "client self = Some c0 \<Longrightarrow>
   zm_device_recv_mlm self w (mailbox_deliver sender subject m) =
     zm_device_recv_mlm_mailbox
       (self\<lparr>client := Some (c0\<lparr>mlm_client_command := ''MAILBOX DELIVER'',
                                 mlm_client_sender := sender,
                                 mlm_client_subject := subject\<rparr>),
             msg := m\<rparr>) w"
  by (simp add: zm_device_recv_mlm_def mailbox_deliver_def Let_def)

lemmas eval_defs =
  zm_device_recv_mlm_def zm_device_recv_mlm_mailbox_def mailbox_deliver_def test_actor_def
  test_request_def device1_def device2_def no_devices_def
  zm_device_new_def zm_devices_new_def world0_def emit_def zpoller_add_def mlm_client_new_def
  zm_proto_new_def zm_proto_encode_ok_def zm_proto_encode_error_def zm_proto_encode_device_v1_def
  zm_devices_size_def zm_devices_insert_def zm_devices_delete_def zm_devices_lookup_def
  zm_device_publish_def zm_proto_sendto_def zm_proto_send_mlm_def zm_proto_ext_set_int_def
  zm_proto_ext_string_def effects_since_def world_of_def recv_mlm_next_def Let_def

lemmas config_defs =
  zm_device_config_def zmsg_popstr_def zm_device_cfg_file_def zconfig_resolve_def
  zconfig_locate_def zm_devices_store_def zm_devices_set_file_def
  test_env_def test_config_def test_config_text_def

subsection \<open>Mailbox: INSERT, DELETE and LOOKUP\<close>

text \<open>
  Claim C6. For a mailbox INSERT or DELETE the handler's effects are, in this order: the
  registry mutation (upsert of the received record, or removal of the named one), the
  broadcast of the received message on the producer topic under the originating subject
  ("INSERT" or "DELETE"), and last the point-to-point OK acknowledgement to the sender.
  Nothing else is added to the trace, so the acknowledgement never precedes the broadcast,
  and the registry after the call holds the mutation.
\<close>

theorem insert_delete_effect_order:
  assumes "client self = Some c"
    and "mlm_client_subject c = ''INSERT'' \<or> mlm_client_subject c = ''DELETE''"
  shows "\<exists>self' w'. zm_device_recv_mlm_mailbox self w = Inr (self', w') \<and>
           trace w' = trace w @
             [if mlm_client_subject c = ''INSERT'' then Devices_insert (msg self)
              else Devices_delete (zm_proto_device (msg self)),
              Mlm_send (mlm_client_subject c) (msg self),
              Mlm_sendto (mlm_client_sender c) ''LOOKUP'' (zm_proto_encode_ok (msg self))] \<and>
           zm_devices_recs (devices self') =
             (if mlm_client_subject c = ''INSERT''
              then AList.update (zm_proto_device (msg self)) (msg self)
                     (zm_devices_recs (devices self))
              else AList.delete (zm_proto_device (msg self)) (zm_devices_recs (devices self)))"
  using assms
  by (auto simp: zm_device_recv_mlm_mailbox_def Let_def zm_devices_insert_def
      zm_devices_delete_def zm_device_publish_def zm_proto_sendto_def emit_def)

theorem insert_delete_effect_order_witness:
  "client (test_request ''DELETE'' device1 no_devices) =
     Some (mlm_client_new\<lparr>mlm_client_command := ''MAILBOX DELIVER'',
                          mlm_client_sender := ''writer'',
                          mlm_client_subject := ''DELETE''\<rparr>) \<and>
   (\<exists>self' w'.
      zm_device_recv_mlm_mailbox (test_request ''DELETE'' device1 no_devices) world0 =
        Inr (self', w') \<and>
      trace w' = [Devices_delete ''device1'', Mlm_send ''DELETE'' device1,
                  Mlm_sendto ''writer'' ''LOOKUP'' (zm_proto_encode_ok device1)] \<and>
      zm_devices_recs (devices self') = [])"
proof -
  let ?c = "mlm_client_new\<lparr>mlm_client_command := ''MAILBOX DELIVER'',
                            mlm_client_sender := ''writer'',
                            mlm_client_subject := ''DELETE''\<rparr>"
  have h1: "client (test_request ''DELETE'' device1 no_devices) = Some ?c"
    by (simp add: test_request_def)
  have h2: "mlm_client_subject ?c = ''INSERT'' \<or> mlm_client_subject ?c = ''DELETE''"
    by simp
  have m: "msg (test_request ''DELETE'' device1 no_devices) = device1"
          "zm_proto_device device1 = ''device1''"
          "zm_devices_recs (devices (test_request ''DELETE'' device1 no_devices)) = []"
    by (simp_all add: test_request_def test_actor_def device1_def no_devices_def
        zm_proto_encode_device_v1_def)
  show ?thesis
    using h1 insert_delete_effect_order [OF h1 h2, of world0]
    by (simp add: m world0_def)
qed

text \<open>
  Claim C4. Handling a mailbox INSERT of a record \<open>d\<close> and then a mailbox LOOKUP whose
  request names \<open>d\<close>'s device: the LOOKUP is answered with one point-to-point reply whose
  content is exactly \<open>d\<close>, and the registry holds \<open>d\<close> under its name, whatever it held
  before. The trace lists both requests' effects.
\<close>

theorem insert_then_lookup:
  assumes "client self = Some c" and "zm_proto_device q = zm_proto_device d"
  shows "\<exists>self' w'.
           recv_mlm_next (zm_device_recv_mlm self w (mailbox_deliver a1 ''INSERT'' d))
                         (mailbox_deliver a2 ''LOOKUP'' q) = Inr (self', w') \<and>
           trace w' = trace w @
             [Devices_insert d, Mlm_send ''INSERT'' d,
              Mlm_sendto a1 ''LOOKUP'' (zm_proto_encode_ok d),
              Mlm_sendto a2 ''LOOKUP'' d] \<and>
           zm_devices_lookup (devices self') (zm_proto_device d) = Some d"
  using assms
  by (simp add: recv_mlm_mailbox_deliver recv_mlm_next_def
      zm_device_recv_mlm_mailbox_def Let_def zm_devices_insert_def zm_devices_lookup_def
      zm_device_publish_def zm_proto_sendto_def emit_def AList.update_conv')

theorem insert_then_lookup_witness:
  "client (test_actor \<lparr>zm_devices_file = None, zm_devices_recs = [(''device1'', device2)]\<rparr>) =
     Some mlm_client_new \<and>
   zm_proto_device (zm_proto_encode_device_v1 ''device1'' 0 0 []) = zm_proto_device device1 \<and>
   (\<exists>self' w'.
      recv_mlm_next
        (zm_device_recv_mlm
           (test_actor \<lparr>zm_devices_file = None, zm_devices_recs = [(''device1'', device2)]\<rparr>)
           world0 (mailbox_deliver ''writer'' ''INSERT'' device1))
        (mailbox_deliver ''writer'' ''LOOKUP'' (zm_proto_encode_device_v1 ''device1'' 0 0 [])) =
        Inr (self', w') \<and>
      trace w' =
        [Devices_insert device1, Mlm_send ''INSERT'' device1,
         Mlm_sendto ''writer'' ''LOOKUP'' (zm_proto_encode_ok device1),
         Mlm_sendto ''writer'' ''LOOKUP'' device1])"
proof -
  let ?self = "test_actor \<lparr>zm_devices_file = None, zm_devices_recs = [(''device1'', device2)]\<rparr>"
  have h1: "client ?self = Some mlm_client_new"
    by (simp add: test_actor_def zm_device_new_def zm_devices_new_def)
  have h2: "zm_proto_device (zm_proto_encode_device_v1 ''device1'' 0 0 []) = zm_proto_device device1"
    by (simp add: device1_def zm_proto_encode_device_v1_def)
  show ?thesis
    using h1 h2 insert_then_lookup [OF h1 h2, of world0 "''writer''" "''writer''"]
    by (auto simp: world0_def)
qed

text \<open>
  Claim C5, as the code has it. Handling a mailbox DELETE for a device name and then a
  mailbox LOOKUP of the same name, whatever the registry held: the DELETE is acknowledged
  with an OK status, and the LOOKUP is answered with an error status of code 404 under reply
  subject "LOOKUP". The text of that error is "Requested device does not exists".
\<close>

theorem delete_then_lookup:
  assumes "client self = Some c" and "zm_proto_device q = zm_proto_device d"
  shows "\<exists>self' w'.
           recv_mlm_next (zm_device_recv_mlm self w (mailbox_deliver a1 ''DELETE'' d))
                         (mailbox_deliver a2 ''LOOKUP'' q) = Inr (self', w') \<and>
           trace w' = trace w @
             [Devices_delete (zm_proto_device d), Mlm_send ''DELETE'' d,
              Mlm_sendto a1 ''LOOKUP'' (zm_proto_encode_ok d),
              Mlm_sendto a2 ''LOOKUP''
                (zm_proto_encode_error q 404 ''Requested device does not exists'')]"
  using assms
  by (simp add: recv_mlm_mailbox_deliver recv_mlm_next_def
      zm_device_recv_mlm_mailbox_def Let_def zm_devices_delete_def zm_devices_lookup_def
      zm_device_publish_def zm_proto_sendto_def emit_def AList.delete_conv')

theorem delete_then_lookup_witness:
  "client (test_actor \<lparr>zm_devices_file = None, zm_devices_recs = [(''device1'', device1)]\<rparr>) =
     Some mlm_client_new \<and>
   (\<exists>self' w'.
      recv_mlm_next
        (zm_device_recv_mlm
           (test_actor \<lparr>zm_devices_file = None, zm_devices_recs = [(''device1'', device1)]\<rparr>)
           world0 (mailbox_deliver ''writer'' ''DELETE'' device1))
        (mailbox_deliver ''reader'' ''LOOKUP'' device1) = Inr (self', w') \<and>
      trace w' =
        [Devices_delete ''device1'', Mlm_send ''DELETE'' device1,
         Mlm_sendto ''writer'' ''LOOKUP'' (zm_proto_encode_ok device1),
         Mlm_sendto ''reader'' ''LOOKUP''
           (zm_proto_encode_error device1 404 ''Requested device does not exists'')])"
proof -
  let ?self = "test_actor \<lparr>zm_devices_file = None, zm_devices_recs = [(''device1'', device1)]\<rparr>"
  have h1: "client ?self = Some mlm_client_new"
    by (simp add: test_actor_def zm_device_new_def zm_devices_new_def)
  have n: "zm_proto_device device1 = ''device1''"
    by (simp add: device1_def zm_proto_encode_device_v1_def)
  show ?thesis
    using h1 delete_then_lookup [OF h1 refl, of world0 "''writer''" device1 "''reader''"]
    by (auto simp: world0_def n)
qed

text \<open>
  The claim C5 as stated gives the error text as "device does not exist". On a fresh actor,
  DELETE of "device1" followed by LOOKUP of "device1" produces an OK reply and then an error
  reply of code 404 whose text is a different string.
\<close>

theorem lookup_miss_text_differs:
  "map reply_status
     (sendto_contents (effects_since 0
        (recv_mlm_next
           (zm_device_recv_mlm (test_actor no_devices) world0
              (mailbox_deliver ''writer'' ''DELETE'' (zm_proto_encode_device_v1 ''device1'' 0 0 [])))
           (mailbox_deliver ''writer'' ''LOOKUP'' (zm_proto_encode_device_v1 ''device1'' 0 0 []))))) =
   [(ZM_PROTO_OK, 0, []), (ZM_PROTO_ERROR, 404, ''Requested device does not exists'')]
   \<and> ''Requested device does not exists'' \<noteq> ''device does not exist''"
  by (simp add: eval_defs reply_status_def)


subsection \<open>GET-ALL: what the replies do carry\<close>

text \<open>
  Different counts have different decimal renderings, so the renderings of \<open>0, \<dots>, N-1\<close>
  are \<open>N\<close> different annotation values.
\<close>

lemma digit_value_digit_char: "d < 10 \<Longrightarrow> digit_value (digit_char d) = d"
proof -
  assume "d < 10"
  then have "d \<in> {0, 1, 2, 3, 4, 5, 6, 7, 8, 9}" by auto
  then show ?thesis
    by (auto simp: digit_value_def digit_char_def)
qed

lemma nat_of_string_append:
  "nat_of_string acc (xs @ [ch]) = 10 * nat_of_string acc xs + digit_value ch"
  by (induction xs arbitrary: acc) simp_all

lemma nat_of_string_of_nat: "nat_of_string 0 (string_of_nat n) = n"
proof (induction n rule: string_of_nat.induct)
  case (1 n)
  show ?case
  proof (cases "n < 10")
    case True
    then show ?thesis
      by (simp add: string_of_nat.simps [of n] digit_value_digit_char)
  next
    case False
    then show ?thesis
      using 1
      by (simp add: string_of_nat.simps [of n] nat_of_string_append digit_value_digit_char)
  qed
qed

lemma string_of_nat_inj: "string_of_nat m = string_of_nat n \<Longrightarrow> m = n"
  by (metis nat_of_string_of_nat)

text \<open>
  On a non-empty registry of \<open>N\<close> records GET-ALL sends its replies with \<^verbatim>\<open>_seq\<close> set to
  \<open>0, \<dots>, N-1\<close> in the order sent, and the first reply carries \<^verbatim>\<open>_cnt\<close> = \<open>N\<close>. (That there
  are \<open>N\<close> replies is part of \<open>mailbox_reply_headers\<close> below.)
\<close>

lemma sendto_contents_map_sendto:
  "sendto_contents (map (\<lambda>x. Mlm_sendto a s (f x)) xs) = map f xs"
  by (induction xs) simp_all

lemma ext_string_set_int_same:
  "zm_proto_ext_string (zm_proto_ext_set_int m key n) key = Some (string_of_nat n)"
  by (simp add: zm_proto_ext_string_def zm_proto_ext_set_int_def AList.update_conv')

lemma ext_string_set_int_other:
  "key' \<noteq> key \<Longrightarrow>
   zm_proto_ext_string (zm_proto_ext_set_int m key n) key' = zm_proto_ext_string m key'"
  by (simp add: zm_proto_ext_string_def zm_proto_ext_set_int_def AList.update_conv')

lemma get_all_replies:
  assumes "client self = Some c" and "mlm_client_subject c = ''GET-ALL''"
    and "zm_devices_recs (devices self) = (name, first) # rest"
  shows "\<exists>new. trace (world_of (zm_device_recv_mlm_mailbox self w)) = trace w @ new \<and>
           map (\<lambda>m. zm_proto_ext_string m ''_seq'') (sendto_contents new) =
             map (\<lambda>j. Some (string_of_nat j)) [0..<Suc (length rest)] \<and>
           zm_proto_ext_string (hd (sendto_contents new)) ''_cnt'' =
             Some (string_of_nat (Suc (length rest)))"
proof -
  let ?first1 = "zm_proto_ext_set_int first ''_cnt'' (Suc (length rest))"
  let ?recs = "(name, ?first1) # rest"
  let ?f = "\<lambda>x. zm_proto_ext_set_int (snd (snd x)) ''_seq'' (fst x)"
  let ?new = "map (\<lambda>x. Mlm_sendto (mlm_client_sender c) ''GET-ALL'' (?f x))
                (zip [0..<0 + length ?recs] ?recs)"
  have tr: "trace (world_of (zm_device_recv_mlm_mailbox self w)) = trace w @ ?new"
    using assms
    by (simp add: zm_device_recv_mlm_mailbox_def Let_def case_prod_beta zm_devices_size_def
        get_all_loop_trace del: get_all_loop.simps upt_Suc)
  have contents: "sendto_contents ?new = map ?f (zip [0..<0 + length ?recs] ?recs)"
    by (rule sendto_contents_map_sendto)
  have fsts: "map fst (zip [0..<0 + length ?recs] ?recs) = [0..<0 + length ?recs]"
    by (rule map_fst_zip) simp
  have a: "map (\<lambda>m. zm_proto_ext_string m ''_seq'') (sendto_contents ?new) =
             map (\<lambda>x. Some (string_of_nat (fst x))) (zip [0..<0 + length ?recs] ?recs)"
    unfolding contents by (simp add: ext_string_set_int_same o_def del: upt_Suc)
  have b: "map (\<lambda>x. Some (string_of_nat (fst x))) zs =
             map (\<lambda>j. Some (string_of_nat j)) (map fst zs)"
    for zs :: "(nat \<times> string \<times> zm_proto_t) list"
    by (simp only: map_map o_def)
  have seq: "map (\<lambda>m. zm_proto_ext_string m ''_seq'') (sendto_contents ?new) =
               map (\<lambda>j. Some (string_of_nat j)) [0..<Suc (length rest)]"
    unfolding a b fsts by simp
  have zip0: "zip [0..<0 + length ?recs] ?recs = (0, name, ?first1) # zip [1..<Suc (length rest)] rest"
    using upt_step [of 0 "length rest"] by simp
  have cnt: "zm_proto_ext_string (hd (sendto_contents ?new)) ''_cnt'' =
               Some (string_of_nat (Suc (length rest)))"
    unfolding contents zip0
    by (simp add: ext_string_set_int_same ext_string_set_int_other)
  from tr seq cnt show ?thesis by blast
qed

subsection \<open>Mailbox: reply subjects, GET-ALL and PUBLISH-ALL\<close>

text \<open>
  Claim C2, as the code has it. Every point-to-point reply of the mailbox handler goes to
  the sender of the request. The single replies (to INSERT, DELETE, LOOKUP, an unrecognized
  subject, and GET-ALL on an empty registry) are addressed under subject "LOOKUP"; the
  messages of a GET-ALL sequence on a non-empty registry, one per record, are addressed
  under the originating subject "GET-ALL"; PUBLISH-ALL sends no point-to-point reply.
\<close>

theorem mailbox_reply_headers:
  assumes "client self = Some c"
  shows "\<exists>new. trace (world_of (zm_device_recv_mlm_mailbox self w)) = trace w @ new \<and>
           sendto_headers new =
             (if mlm_client_subject c = ''GET-ALL'' \<and> zm_devices_size (devices self) \<noteq> 0
              then replicate (zm_devices_size (devices self)) (mlm_client_sender c, ''GET-ALL'')
              else if mlm_client_subject c = ''PUBLISH-ALL'' then []
              else [(mlm_client_sender c, ''LOOKUP'')])"
proof -
  let ?s = "mlm_client_subject c"
  consider (getall) "?s = ''GET-ALL''" "zm_devices_size (devices self) \<noteq> 0"
    | (publish) "?s = ''PUBLISH-ALL''"
    | (other) "?s \<noteq> ''PUBLISH-ALL''" "?s \<noteq> ''GET-ALL'' \<or> zm_devices_size (devices self) = 0"
    by blast
  then show ?thesis
  proof cases
    case getall
    then obtain name first rest where recs: "zm_devices_recs (devices self) = (name, first) # rest"
      by (cases "zm_devices_recs (devices self)") (auto simp: zm_devices_size_def)
    show ?thesis
      using assms getall recs
      by (simp add: zm_device_recv_mlm_mailbox_def Let_def case_prod_beta
          zm_devices_size_def get_all_loop_trace sendto_headers_map_sendto
          del: get_all_loop.simps upt_Suc)
  next
    case publish
    show ?thesis
    proof (cases "zm_devices_recs (devices self)")
      case Nil
      then show ?thesis
        using assms publish
        by (simp add: zm_device_recv_mlm_mailbox_def Let_def)
    next
      case (Cons a rest)
      obtain name first where a: "a = (name, first)" by (cases a)
      show ?thesis
        using assms publish Cons a
        by (simp add: zm_device_recv_mlm_mailbox_def Let_def case_prod_beta
            zm_devices_size_def publish_all_loop_trace sendto_headers_map_send
            del: publish_all_loop.simps upt_Suc)
    qed
  next
    case other
    show ?thesis
      using assms other
      by (auto simp: zm_device_recv_mlm_mailbox_def Let_def case_prod_beta
          zm_devices_insert_def zm_devices_delete_def zm_device_publish_def zm_proto_sendto_def
          emit_def split: option.splits)
  qed
qed

theorem mailbox_reply_headers_witness:
  "client (test_request ''NO-SUCH-SUBJECT'' device1 no_devices) =
     Some (mlm_client_new\<lparr>mlm_client_command := ''MAILBOX DELIVER'',
                          mlm_client_sender := ''writer'',
                          mlm_client_subject := ''NO-SUCH-SUBJECT''\<rparr>) \<and>
   (\<exists>new. trace (world_of (zm_device_recv_mlm_mailbox
                             (test_request ''NO-SUCH-SUBJECT'' device1 no_devices) world0)) =
             trace world0 @ new \<and>
          sendto_headers new = [(''writer'', ''LOOKUP'')])"
proof -
  let ?c = "mlm_client_new\<lparr>mlm_client_command := ''MAILBOX DELIVER'',
                            mlm_client_sender := ''writer'',
                            mlm_client_subject := ''NO-SUCH-SUBJECT''\<rparr>"
  have h: "client (test_request ''NO-SUCH-SUBJECT'' device1 no_devices) = Some ?c"
    by (simp add: test_request_def)
  show ?thesis
    using h mailbox_reply_headers [OF h, of world0]
    by simp
qed

text \<open>
  The claim C2 as stated has every reply under subject "LOOKUP", the messages of a GET-ALL
  sequence included. As in the self test, a fresh actor handles INSERT of "device1" and then
  GET-ALL: after the three effects of the INSERT, the one reply to GET-ALL is addressed
  under subject "GET-ALL".
\<close>

theorem get_all_reply_subject_is_get_all:
  "sendto_headers (effects_since 3
      (recv_mlm_next
         (zm_device_recv_mlm (test_actor no_devices) world0
            (mailbox_deliver ''writer'' ''INSERT'' device1))
         (mailbox_deliver ''writer'' ''GET-ALL'' (zm_proto_encode_ok zm_proto_new)))) =
   [(''writer'', ''GET-ALL'')] \<and> ''GET-ALL'' \<noteq> ''LOOKUP''"
  by (simp add: eval_defs string_of_nat.simps digit_char_def)

text \<open>
  Claim C1, on a fresh actor that has handled INSERT of "device1" and INSERT of "device2",
  two records that carry no annotations. GET-ALL then sends two replies, with \<^verbatim>\<open>_seq\<close> 0
  and 1; the first carries \<^verbatim>\<open>_cnt\<close> 2 and the second carries no \<^verbatim>\<open>_cnt\<close> at all, because
  \<^verbatim>\<open>_cnt\<close> is set once, before the loop, on the first record only. (The six effects before
  the replies are those of the two INSERTs.)
\<close>

theorem get_all_second_reply_without_cnt:
  "map reply_sequencing
     (sendto_contents (effects_since 6
        (recv_mlm_next
           (recv_mlm_next
              (zm_device_recv_mlm (test_actor no_devices) world0
                 (mailbox_deliver ''writer'' ''INSERT'' device1))
              (mailbox_deliver ''writer'' ''INSERT'' device2))
           (mailbox_deliver ''writer'' ''GET-ALL'' (zm_proto_encode_ok zm_proto_new))))) =
   [(''device1'', Some ''0'', Some ''2''), (''device2'', Some ''1'', None)]"
  by (simp add: eval_defs reply_sequencing_def string_of_nat.simps digit_char_def)

text \<open>
  Claim C3, on a freshly created actor, whose registry is empty. PUBLISH-ALL does not
  complete: \<^verbatim>\<open>zm_devices_first\<close> gives NULL, and \<^verbatim>\<open>zm_proto_ext_set_int\<close> is called on it
  before the loop's test of \<^verbatim>\<open>msg\<close>. Nothing has been sent at that point.
\<close>

theorem publish_all_empty_registry_aborts:
  "zm_device_recv_mlm (test_actor no_devices) world0
      (mailbox_deliver ''writer'' ''PUBLISH-ALL'' (zm_proto_encode_ok zm_proto_new)) =
   Inl (Null_object ''zm_proto_ext_set_int'', world0)"
  by (simp add: eval_defs)

subsection \<open>STOP and CONFIG\<close>

text \<open>
  Claim C7, on a freshly created actor. The first STOP returns 0 and leaves the actor
  without a broker client; a second STOP in a row does not return, because it calls
  \<^verbatim>\<open>mlm_client_msgpipe\<close> on the NULL client.
\<close>

theorem stop_twice_aborts:
  "zm_device_stop (test_actor no_devices) world0 =
     Inr (0, (test_actor no_devices)\<lparr>poller := [Actor_pipe], client := None\<rparr>,
          zm_devices_store no_devices world0) \<and>
   zm_device_stop ((test_actor no_devices)\<lparr>poller := [Actor_pipe], client := None\<rparr>)
       (zm_devices_store no_devices world0) =
     Inl (Null_object ''mlm_client_msgpipe'', zm_devices_store no_devices world0)"
  by (simp add: zm_device_stop_def test_actor_def zm_device_new_def zm_devices_new_def
      zpoller_add_def zpoller_remove_def)

text \<open>
  Claim C8, as the code has it. After a CONFIG command whose payload parses, the new tree
  is the configuration. If it has no \<^verbatim>\<open>server/file\<close>, the registry and the world are
  unchanged. If it has one, then, whether or not it differs from the registry's current
  backing file: the registry's contents are persisted (to its current file, or to the new
  one if it had none), and the registry is replaced by one bound to the new file and
  holding what that file then holds; these two are the only effects.
\<close>

theorem config_success_registry:
  assumes "zconfig_str_load e str_config = Some foo"
  shows "\<exists>self' w'.
           zm_device_config e self w (str_config # rest) = (0, self', w') \<and>
           config self' = Some foo \<and>
           (case zconfig_resolve foo ''server/file'' None of
              None \<Rightarrow> devices self' = devices self \<and> w' = w
            | Some file \<Rightarrow>
                (let old = (case zm_devices_file (devices self) of None \<Rightarrow> file | Some g \<Rightarrow> g)
                 in trace w' = trace w @
                      [Devices_store (Some old) (zm_devices_recs (devices self)),
                       Devices_new (Some file)] \<and>
                    files w' = AList.update old (zm_devices_recs (devices self)) (files w) \<and>
                    zm_devices_file (devices self') = Some file \<and>
                    zm_devices_recs (devices self') =
                      (if old = file then zm_devices_recs (devices self)
                       else case map_of (files w) file of None \<Rightarrow> [] | Some recs \<Rightarrow> recs)))"
  using assms
  by (auto simp: zm_device_config_def zmsg_popstr_def zm_device_cfg_file_def Let_def
      zm_devices_store_def zm_devices_set_file_def zm_devices_new_def emit_def
      AList.update_conv' split: option.splits)

theorem config_success_registry_witness:
  "zconfig_str_load test_env test_config_text = Some test_config \<and>
   zconfig_resolve test_config ''server/file'' None = Some ''devices.zpl'' \<and>
   (\<exists>self' w'.
      zm_device_config test_env
        (test_actor \<lparr>zm_devices_file = None, zm_devices_recs = [(''device1'', device1)]\<rparr>)
        world0 [test_config_text] = (0, self', w') \<and>
      config self' = Some test_config \<and>
      trace w' =
        [Devices_store (Some ''devices.zpl'') [(''device1'', device1)],
         Devices_new (Some ''devices.zpl'')] \<and>
      devices self' =
        \<lparr>zm_devices_file = Some ''devices.zpl'', zm_devices_recs = [(''device1'', device1)]\<rparr>)"
proof -
  have h: "zconfig_str_load test_env test_config_text = Some test_config"
    by (simp add: test_env_def)
  have r: "zconfig_resolve test_config ''server/file'' None = Some ''devices.zpl''"
    by (simp add: zconfig_resolve_def zconfig_locate_def test_config_def)
  show ?thesis
    using h r config_success_registry [OF h, of
        "test_actor \<lparr>zm_devices_file = None, zm_devices_recs = [(''device1'', device1)]\<rparr>"
        world0 "[]"]
    by (auto simp: Let_def test_actor_def world0_def)
qed

text \<open>
  The claim C8 as stated leaves the registry alone when \<^verbatim>\<open>server/file\<close> is unchanged. Here
  a first CONFIG binds the registry of a fresh actor (holding "device1") to "devices.zpl";
  a second CONFIG with the same text, so the same \<^verbatim>\<open>server/file\<close>, succeeds too, and
  persists and replaces the registry once more.
\<close>

theorem config_same_file_still_persists_and_replaces:
  "zm_device_config test_env
       (test_actor \<lparr>zm_devices_file = None, zm_devices_recs = [(''device1'', device1)]\<rparr>)
       world0 [test_config_text] =
     (0,
      (test_actor \<lparr>zm_devices_file = Some ''devices.zpl'',
                   zm_devices_recs = [(''device1'', device1)]\<rparr>)\<lparr>config := Some test_config\<rparr>,
      \<lparr>files = [(''devices.zpl'', [(''device1'', device1)])],
       trace = [Devices_store (Some ''devices.zpl'') [(''device1'', device1)],
                Devices_new (Some ''devices.zpl'')]\<rparr>) \<and>
   zm_device_cfg_file
       ((test_actor \<lparr>zm_devices_file = Some ''devices.zpl'',
                    zm_devices_recs = [(''device1'', device1)]\<rparr>)\<lparr>config := Some test_config\<rparr>) =
     Some ''devices.zpl'' \<and>
   zm_device_config test_env
       ((test_actor \<lparr>zm_devices_file = Some ''devices.zpl'',
                    zm_devices_recs = [(''device1'', device1)]\<rparr>)\<lparr>config := Some test_config\<rparr>)
       \<lparr>files = [(''devices.zpl'', [(''device1'', device1)])],
        trace = [Devices_store (Some ''devices.zpl'') [(''device1'', device1)],
                 Devices_new (Some ''devices.zpl'')]\<rparr>
       [test_config_text] =
     (0,
      (test_actor \<lparr>zm_devices_file = Some ''devices.zpl'',
                   zm_devices_recs = [(''device1'', device1)]\<rparr>)\<lparr>config := Some test_config\<rparr>,
      \<lparr>files = [(''devices.zpl'', [(''device1'', device1)])],
       trace = [Devices_store (Some ''devices.zpl'') [(''device1'', device1)],
                Devices_new (Some ''devices.zpl''),
                Devices_store (Some ''devices.zpl'') [(''device1'', device1)],
                Devices_new (Some ''devices.zpl'')]\<rparr>)"
  by (simp add: config_defs test_actor_def zm_device_new_def zm_devices_new_def world0_def
      emit_def Let_def)

end
